theory Spec2Isabelle
  imports Complex_Main "HOL-Library.AList"
begin

section \<open>Python values and dictionaries\<close>

text \<open>
  The workflow passes \<open>Dict[str, Any]\<close> payloads between stages. A payload value is
  one of Python's JSON-like values. Floats are only stored and copied by the orchestrator
  (never computed with), so they are carried as real numbers.
\<close>

datatype pyval =
    PyNone
  | PyBool bool
  | PyInt int
  | PyFloat real
  | PyStr string
  | PyList "pyval list"
  | PyDict "(string \<times> pyval) list"

type_synonym pydict = "(string \<times> pyval) list"

text \<open>Python truthiness, as used by \<open>if passed:\<close>.\<close>

fun truthy :: "pyval \<Rightarrow> bool" where
  "truthy PyNone = False"
| "truthy (PyBool b) = b"
| "truthy (PyInt i) = (i \<noteq> 0)"
| "truthy (PyFloat r) = (r \<noteq> 0)"
| "truthy (PyStr s) = (s \<noteq> [])"
| "truthy (PyList xs) = (xs \<noteq> [])"
| "truthy (PyDict d) = (d \<noteq> [])"

text \<open>
  A dictionary is an association list: \<open>map_of d k\<close> is \<open>d.get(k)\<close>,
  \<open>AList.update k v d\<close> is \<open>d[k] = v\<close> (an existing key keeps its place, a new one is
  appended), and \<open>dict_update d e\<close> is \<open>d.update(e)\<close>: the entries of \<open>e\<close> override
  those of \<open>d\<close>.
\<close>

definition dict_get :: "('k \<times> 'v) list \<Rightarrow> 'k \<Rightarrow> 'v \<Rightarrow> 'v" where
  "dict_get d k dflt = (case map_of d k of None \<Rightarrow> dflt | Some v \<Rightarrow> v)"

definition dict_update :: "('k \<times> 'v) list \<Rightarrow> ('k \<times> 'v) list \<Rightarrow> ('k \<times> 'v) list" where
  "dict_update d e = AList.merge d e"

section \<open>The workflow state (workflow/models.py)\<close>

text \<open>
  \<open>AgentState\<close> is a \<open>TypedDict(total=False)\<close>: every key may be absent, which the
  orchestrator tests with \<open>in\<close> and \<open>.get\<close>. Each key is therefore an optional field.
\<close>

record agent_state =
  a_agent_id :: "string option"
  a_name :: "pyval option"
  a_status :: "string option"
  a_start_time :: "real option"
  a_end_time :: "real option"
  a_result :: "pydict option"
  a_error :: "string option"
  a_retry_count :: "int option"

text \<open>An entry of the \<open>errors\<close> list.\<close>

record error_entry =
  e_agent_id :: string
  e_agent_name :: pyval
  e_error :: string
  e_time :: real

text \<open>
  \<open>WorkflowState\<close>: \<open>run_workflow\<close> creates it with all eight keys and no handler
  removes one, so the keys are total fields here.
\<close>

record workflow_state =
  url :: string
  current_agent_id :: "string option"
  agents :: "(string \<times> agent_state) list"
  results :: "(string \<times> pydict) list"
  errors :: "error_entry list"
  quality_score :: pyval
  status :: string
  output_path :: pyval

text \<open>\<open>AgentConfig\<close> (workflow/models.py) and the attributes of \<open>BaseAgent\<close>.\<close>

record agent_config =
  cfg_agent_type :: string
  cfg_name :: string
  cfg_debug :: bool
  cfg_max_retries :: int
  cfg_timeout :: int
  cfg_config :: pydict

record base_agent =
  ag_debug :: pyval
  ag_timeout :: pyval
  ag_max_retries :: pyval
  ag_id :: pyval

text \<open>
  What the orchestrator cannot see: the outcome of each stage's \<open>process_sync\<close> and the
  wall clock. \<open>process_sync W k aid input\<close> is the outcome of the \<open>k\<close>-th handler
  call of the run (counted from 0), made for stage \<open>aid\<close> on \<open>input\<close>: \<open>Inl msg\<close> when
  the stage raises an exception whose text is \<open>msg\<close>, \<open>Inr result\<close> when it returns.
  \<open>time W k j\<close> is the \<open>j\<close>-th reading of \<open>time.time()\<close> within that call, and
  \<open>time_orch W\<close> the one taken by \<open>run_workflow\<close>'s own exception handler.
\<close>

record env =
  process_sync :: "nat \<Rightarrow> string \<Rightarrow> pydict \<Rightarrow> string + pydict"
  time :: "nat \<Rightarrow> nat \<Rightarrow> real"
  time_orch :: real

section \<open>The agent factory (workflow/agent\_factory.py, agents/base\_agent.py)\<close>

text \<open>\<open>BaseAgent.__init__(**kwargs)\<close>; \<open>cls\<close> is \<open>self.__class__.__name__\<close>.\<close>

definition BaseAgent_init :: "string \<Rightarrow> pydict \<Rightarrow> base_agent" where
  "BaseAgent_init cls kwargs =
     \<lparr> ag_debug = dict_get kwargs ''debug'' (PyBool False),
       ag_timeout = dict_get kwargs ''timeout'' (PyInt 60),
       ag_max_retries = dict_get kwargs ''max_retries'' (PyInt 3),
       ag_id = dict_get kwargs ''id'' (PyStr cls) \<rparr>"

definition agent_classes :: "(string \<times> string) list" where
  "agent_classes =
     [(''scraper'', ''ScraperAgent''),
      (''semantic_parser'', ''SemanticParserAgent''),
      (''style_transfer'', ''StyleTransferAgent''),
      (''layout_generator'', ''LayoutGeneratorAgent''),
      (''component_synthesizer'', ''ComponentSynthesizerAgent''),
      (''validation'', ''ValidationAgent'')]"

text \<open>
  \<open>AgentFactory.create_agent\<close>. The call
  \<open>agent_class(name=.., debug=.., timeout=.., retry_limit=config.max_retries, **config.config)\<close>
  is a \<open>TypeError\<close> when \<open>config.config\<close> repeats one of the four keywords. Every agent
  class hands its \<open>kwargs\<close> to \<open>BaseAgent.__init__\<close> unchanged.
\<close>

definition create_agent :: "agent_config \<Rightarrow> string + base_agent" where
  "create_agent config =
     (case map_of agent_classes (cfg_agent_type config) of
        None \<Rightarrow> Inl (''Invalid agent type: '' @ cfg_agent_type config)
      | Some agent_class \<Rightarrow>
          (let named = [(''name'', PyStr (cfg_name config)),
                        (''debug'', PyBool (cfg_debug config)),
                        (''timeout'', PyInt (cfg_timeout config)),
                        (''retry_limit'', PyInt (cfg_max_retries config))]
           in if list_ex (\<lambda>k. k \<in> set (map fst named)) (map fst (cfg_config config))
              then Inl ''TypeError: got multiple values for keyword argument''
              else Inr (BaseAgent_init agent_class (named @ cfg_config config))))"

text \<open>Python's \<open>str\<close> of a non-negative integer, for \<open>f"{config.agent_type}_{i+1}"\<close>.\<close>

fun str_nat :: "nat \<Rightarrow> string" where
  "str_nat n =
     (if n < 10 then [''0123456789'' ! n]
      else str_nat (n div 10) @ [''0123456789'' ! (n mod 10)])"

declare str_nat.simps [simp del]

text \<open>
  \<open>AgentFactory.create_agents_from_config\<close>: the loop over \<open>enumerate(agent_configs)\<close>,
  with \<open>i\<close> the current index and \<open>acc\<close> the dictionary built so far. The first
  exception of \<open>create_agent\<close> leaves the loop.
\<close>

fun create_agents_loop ::
  "nat \<Rightarrow> agent_config list \<Rightarrow> (string \<times> base_agent) list \<Rightarrow> string + (string \<times> base_agent) list"
where
  "create_agents_loop i [] acc = Inr acc"
| "create_agents_loop i (config # rest) acc =
     (case create_agent config of
        Inl e \<Rightarrow> Inl e
      | Inr agent \<Rightarrow>
          create_agents_loop (Suc i) rest
            (AList.update (cfg_agent_type config @ ''_'' @ str_nat (Suc i)) agent acc))"

definition create_agents_from_config ::
  "agent_config list \<Rightarrow> string + (string \<times> base_agent) list" where
  "create_agents_from_config agent_configs = create_agents_loop 0 agent_configs []"

section \<open>The orchestrator (workflow/orchestrator.py)\<close>

subsection \<open>Stage input\<close>

text \<open>\<open>WorkflowOrchestrator._get_agent_input\<close>, branch by branch.\<close>

definition add_result :: "string \<Rightarrow> workflow_state \<Rightarrow> pydict \<Rightarrow> pydict" where
  "add_result prev state input_data =
     (case map_of (results state) prev of
        None \<Rightarrow> input_data
      | Some r \<Rightarrow> dict_update input_data r)"

definition get_agent_input :: "string \<Rightarrow> workflow_state \<Rightarrow> pydict" where
  "get_agent_input agent_id state =
     (let input_data = [(''url'', PyStr (url state))];
          input_data =
            (if agent_id = ''semantic_parser_2'' \<and> map_of (results state) ''scraper_1'' \<noteq> None
               then add_result ''scraper_1'' state input_data
             else if agent_id = ''style_transfer_3''
               then add_result ''semantic_parser_2'' state
                      (add_result ''scraper_1'' state input_data)
             else if agent_id = ''layout_generator_4''
               then add_result ''style_transfer_3'' state
                      (add_result ''semantic_parser_2'' state input_data)
             else if agent_id = ''component_synthesizer_5''
               then fold (\<lambda>prev_agent_id acc. add_result prev_agent_id state acc)
                      [''scraper_1'', ''semantic_parser_2'', ''style_transfer_3'',
                       ''layout_generator_4'']
                      input_data
             else if agent_id = ''validation_6''
                     \<and> map_of (results state) ''component_synthesizer_5'' \<noteq> None
               then add_result ''component_synthesizer_5'' state input_data
             else input_data)
      in if agent_id \<in> set [''component_synthesizer_5'', ''validation_6'']
         then AList.update ''output_path'' (output_path state) input_data
         else input_data)"

subsection \<open>Stage handler\<close>

text \<open>
  A handler or the traversal either returns the state or raises; in both cases the state
  object has the mutations made so far.
\<close>

datatype run_result = Returns workflow_state | Raises workflow_state string

definition get_retry_count :: "agent_state \<Rightarrow> int" where
  "get_retry_count a = (case a_retry_count a of None \<Rightarrow> 0 | Some c \<Rightarrow> c)"

text \<open>
  The handler built by \<open>_create_agent_handler(agent_id, agent)\<close>, run as the \<open>k\<close>-th
  handler call of the run. \<open>entry\<close> is \<open>state["agents"][agent_id]\<close> after the
  create-or-update step. The scheduling of the status callback leaves the state untouched
  and is not part of the model.
\<close>

definition handler :: "env \<Rightarrow> nat \<Rightarrow> string \<Rightarrow> base_agent \<Rightarrow> workflow_state \<Rightarrow> run_result" where
  "handler W k agent_id agent state0 =
     (let state = state0\<lparr>current_agent_id := Some agent_id\<rparr>;
          entry =
            (case map_of (agents state) agent_id of
               None \<Rightarrow>
                 \<lparr> a_agent_id = Some agent_id, a_name = Some (ag_id agent),
                   a_status = Some ''running'', a_start_time = Some (time W k 0),
                   a_end_time = None, a_result = None, a_error = None,
                   a_retry_count = Some 0 \<rparr>
             | Some a \<Rightarrow>
                 a\<lparr> a_status := Some ''running'', a_start_time := Some (time W k 0),
                    a_retry_count := Some (get_retry_count a + 1) \<rparr>);
          state = state\<lparr>agents := AList.update agent_id entry (agents state)\<rparr>
      in case process_sync W k agent_id (get_agent_input agent_id state) of
           Inr result \<Rightarrow>
             (let entry = entry\<lparr> a_status := Some ''completed'',
                                 a_end_time := Some (time W k 1),
                                 a_result := Some result \<rparr>;
                  state = state\<lparr> agents := AList.update agent_id entry (agents state),
                                 results := AList.update agent_id result (results state) \<rparr>;
                  state = (if agent_id = ''validation_6''
                           then state\<lparr>quality_score :=
                                         dict_get result ''quality_score'' (PyFloat 1)\<rparr>
                           else state);
                  state = (if agent_id = ''component_synthesizer_5''
                           then state\<lparr>output_path :=
                                         dict_get result ''output_path'' (output_path state)\<rparr>
                           else state);
                  state = (if agent_id = ''validation_6''
                              \<and> truthy (dict_get result ''passed'' (PyBool False))
                           then state\<lparr>status := ''completed''\<rparr>
                           else state)
              in Returns state)
         | Inl e \<Rightarrow>
             (let entry = entry\<lparr> a_status := Some ''failed'',
                                 a_end_time := Some (time W k 1),
                                 a_error := Some e \<rparr>;
                  state = state\<lparr> agents := AList.update agent_id entry (agents state),
                                 errors := errors state @
                                   [\<lparr> e_agent_id = agent_id, e_agent_name = ag_id agent,
                                      e_error = e, e_time = time W k 2 \<rparr>] \<rparr>;
                  state = (if get_retry_count entry \<ge> 3
                           then state\<lparr>status := ''failed''\<rparr>
                           else state)
              in Raises state e))"

text \<open>
  The state at the moment the handler calls the stage: \<open>current_agent_id\<close> is set and
  the stage's run state is created or updated (the first half of the handler above). It is
  the state \<open>_get_agent_input\<close> reads and the "agent\_started" callback is given.
\<close>

definition enter_stage ::
  "env \<Rightarrow> nat \<Rightarrow> string \<Rightarrow> base_agent \<Rightarrow> workflow_state \<Rightarrow> workflow_state" where
  "enter_stage W k agent_id agent state0 =
     (let state = state0\<lparr>current_agent_id := Some agent_id\<rparr>;
          entry =
            (case map_of (agents state) agent_id of
               None \<Rightarrow>
                 \<lparr> a_agent_id = Some agent_id, a_name = Some (ag_id agent),
                   a_status = Some ''running'', a_start_time = Some (time W k 0),
                   a_end_time = None, a_result = None, a_error = None,
                   a_retry_count = Some 0 \<rparr>
             | Some a \<Rightarrow>
                 a\<lparr> a_status := Some ''running'', a_start_time := Some (time W k 0),
                    a_retry_count := Some (get_retry_count a + 1) \<rparr>)
      in state\<lparr>agents := AList.update agent_id entry (agents state)\<rparr>)"

subsection \<open>Validation router\<close>

text \<open>
  \<open>not validation_result\<close>: the lookup gave \<open>None\<close>, or an \<open>AgentState\<close> with no key.
\<close>

definition agent_state_empty :: "agent_state \<Rightarrow> bool" where
  "agent_state_empty a \<longleftrightarrow>
     a_agent_id a = None \<and> a_name a = None \<and> a_status a = None \<and> a_start_time a = None \<and>
     a_end_time a = None \<and> a_result a = None \<and> a_error a = None \<and> a_retry_count a = None"

fun agent_state_truthy :: "agent_state option \<Rightarrow> bool" where
  "agent_state_truthy None = False"
| "agent_state_truthy (Some a) = (\<not> agent_state_empty a)"

text \<open>
  \<open>WorkflowOrchestrator._validation_router\<close>. It returns the route and the (possibly
  updated) state; \<open>Inl\<close> is the \<open>KeyError\<close> of
  \<open>state["agents"]["component_synthesizer_5"]\<close> on a state without that entry.
\<close>

definition validation_router :: "workflow_state \<Rightarrow> string + (string \<times> workflow_state)" where
  "validation_router state =
     (let validation_result = map_of (agents state) ''validation_6'' in
      if \<not> agent_state_truthy validation_result
         \<or> (case validation_result of None \<Rightarrow> False
             | Some v \<Rightarrow> a_status v = Some ''failed'')
      then
        (if agent_state_truthy validation_result
            \<and> (case validation_result of None \<Rightarrow> False
                | Some v \<Rightarrow> get_retry_count v < 3)
         then Inr (''retry'', state)
         else Inr (''success'', state\<lparr>status := ''failed''\<rparr>))
      else
        (case validation_result of
           None \<Rightarrow> Inr (''success'', state)
         | Some v \<Rightarrow>
             (case a_result v of
                None \<Rightarrow> Inr (''success'', state)
              | Some result \<Rightarrow>
                  if truthy (dict_get result ''passed'' (PyBool False))
                  then Inr (''success'', state\<lparr>status := ''completed''\<rparr>)
                  else
                    (case map_of (agents state) ''component_synthesizer_5'' of
                       None \<Rightarrow> Inl ''KeyError: component_synthesizer_5''
                     | Some s \<Rightarrow>
                         if get_retry_count s < 3
                         then Inr (''retry'', state)
                         else Inr (''success'', state\<lparr>status := ''failed''\<rparr>)))))"

subsection \<open>Graph construction and traversal\<close>

text \<open>
  \<open>_build_workflow_graph\<close>: one node per agent in dictionary order, an edge between
  consecutive nodes, the sink node \<open>end\<close>, the conditional edges leaving
  \<open>validation_6\<close> when both that stage and \<open>component_synthesizer_5\<close> are
  configured, and the first node as entry point.
\<close>

record graph =
  g_nodes :: "string list"
  g_edges :: "(string \<times> string) list"
  g_conditional :: bool
  g_entry :: "string option"

definition build_workflow_graph :: "(string \<times> base_agent) list \<Rightarrow> graph" where
  "build_workflow_graph ags =
     (let workflow_nodes = map fst ags in
      \<lparr> g_nodes = workflow_nodes @ [''end''],
        g_edges = zip workflow_nodes (tl workflow_nodes),
        g_conditional = (''validation_6'' \<in> set workflow_nodes
                         \<and> ''component_synthesizer_5'' \<in> set workflow_nodes),
        g_entry = (case workflow_nodes of [] \<Rightarrow> None | n # _ \<Rightarrow> Some n) \<rparr>)"

text \<open>The handler of the sink node returns the state as it is.\<close>

definition end_handler :: "workflow_state \<Rightarrow> workflow_state" where
  "end_handler state = state"

text \<open>
  Modelled from the spec: the graph runner behind \<open>compiled_graph.invoke\<close> is the
  external graph library, which is not part of the repository. Following sections 4.2 to
  4.5 of the specification, the runner starts at the entry point, runs one node at a time,
  hands each node the state that the node before it returned, follows the node's outgoing
  edge, asks the router after the quality gate ("success" leads to the sink, "retry" to the
  synthesis stage) and keeps the status the router writes, stops after the sink or at a
  node without outgoing edge, and gives up as soon as a handler or the router raises. For
  the quality gate the conditional edge decides the next node; in the pipelines the
  service builds the gate is the last stage and has no other edge.

  \<open>calls\<close> is the list of stage ids whose handler has run so far, oldest first; it is
  returned with the result so that executions can be counted. \<open>fuel\<close> bounds the number
  of nodes visited: \<open>None\<close> means the bound was reached before the traversal ended.
\<close>

fun traverse ::
  "env \<Rightarrow> (string \<times> base_agent) list \<Rightarrow> graph \<Rightarrow> nat \<Rightarrow> string list \<Rightarrow> string
     \<Rightarrow> workflow_state \<Rightarrow> (string list \<times> run_result) option"
where
  "traverse W ags G 0 calls node state = None"
| "traverse W ags G (Suc fuel) calls node state =
     (if node = ''end'' then Some (calls, Returns (end_handler state))
      else
        (case map_of ags node of
           None \<Rightarrow> Some (calls, Raises state (''KeyError: '' @ node))
         | Some agent \<Rightarrow>
             (case handler W (length calls) node agent state of
                Raises state' e \<Rightarrow> Some (calls @ [node], Raises state' e)
              | Returns state' \<Rightarrow>
                  if g_conditional G \<and> node = ''validation_6'' then
                    (case validation_router state' of
                       Inl e \<Rightarrow> Some (calls @ [node], Raises state' e)
                     | Inr (route, state'') \<Rightarrow>
                         traverse W ags G fuel (calls @ [node])
                           (if route = ''retry'' then ''component_synthesizer_5'' else ''end'')
                           state'')
                  else
                    (case map_of (g_edges G) node of
                       None \<Rightarrow> Some (calls @ [node], Returns state')
                     | Some next_node \<Rightarrow>
                         traverse W ags G fuel (calls @ [node]) next_node state'))))"

definition invoke ::
  "env \<Rightarrow> (string \<times> base_agent) list \<Rightarrow> graph \<Rightarrow> nat \<Rightarrow> workflow_state
     \<Rightarrow> (string list \<times> run_result) option" where
  "invoke W ags G fuel initial_state =
     (case g_entry G of
        None \<Rightarrow> Some ([], Raises initial_state ''ValueError: graph has no entry point'')
      | Some entry \<Rightarrow> traverse W ags G fuel [] entry initial_state)"



subsection \<open>Run lifecycle\<close>

text \<open>
  \<open>run_workflow\<close>. \<open>output_dir\<close> is the fresh run directory
  \<open>os.path.join(self.output_dir, str(uuid.uuid4().int)[:20])\<close>, whose creation is
  taken to succeed. \<open>finish\<close> is what follows \<open>compiled_graph.invoke\<close>. On normal
  completion the returned state is the one the traversal ends with. The exception branch
  returns \<open>initial_state\<close>: the handlers have filled its \<open>agents\<close>, \<open>results\<close> and
  \<open>errors\<close> containers in place, but what they assigned to \<open>current_agent_id\<close>,
  \<open>quality_score\<close>, \<open>output_path\<close> and \<open>status\<close> was assigned on their own
  argument, so these keys are still those of \<open>initial_state\<close> when the branch sets
  \<open>status\<close> and appends its error. \<open>run_workflow_traced\<close> also gives the list of
  handler calls, and \<open>run_visited\<close> the states the traversal goes through.
\<close>

definition initial_state :: "string \<Rightarrow> string \<Rightarrow> workflow_state" where
  "initial_state u output_dir =
     \<lparr> url = u, current_agent_id = None, agents = [], results = [], errors = [],
       quality_score = PyFloat 0, status = ''running'', output_path = PyStr output_dir \<rparr>"

definition any_agent_failed :: "workflow_state \<Rightarrow> bool" where
  "any_agent_failed state = list_ex (\<lambda>(k, a). a_status a = Some ''failed'') (agents state)"

definition finish :: "env \<Rightarrow> workflow_state \<Rightarrow> run_result \<Rightarrow> workflow_state" where
  "finish W initial r =
     (case r of
        Returns final_state \<Rightarrow>
          (if status final_state = ''running''
           then (if any_agent_failed final_state
                 then final_state\<lparr>status := ''failed''\<rparr>
                 else final_state\<lparr>status := ''completed''\<rparr>)
           else final_state)
      | Raises state e \<Rightarrow>
          initial\<lparr> agents := agents state,
                   results := results state,
                   status := ''failed'',
                   errors := errors state @
                     [\<lparr> e_agent_id = ''orchestrator'', e_agent_name = PyStr ''Orchestrator'',
                        e_error = e, e_time = time_orch W \<rparr>] \<rparr>)"

definition run_workflow_traced ::
  "env \<Rightarrow> (string \<times> base_agent) list \<Rightarrow> string \<Rightarrow> nat \<Rightarrow> string
     \<Rightarrow> (string list \<times> workflow_state) option" where
  "run_workflow_traced W ags output_dir fuel u =
     (case invoke W ags (build_workflow_graph ags) fuel (initial_state u output_dir) of
        None \<Rightarrow> None
      | Some (calls, r) \<Rightarrow> Some (calls, finish W (initial_state u output_dir) r))"

definition run_workflow ::
  "env \<Rightarrow> (string \<times> base_agent) list \<Rightarrow> string \<Rightarrow> nat \<Rightarrow> string \<Rightarrow> workflow_state option" where
  "run_workflow W ags output_dir fuel u =
     map_option snd (run_workflow_traced W ags output_dir fuel u)"



text \<open>
  The static dependency table that the specification describes for stage inputs, and the
  input it prescribes: the url, then the artifacts of the declared upstream stages that
  are present in \<open>results\<close> (a later artifact overrides an earlier key), then
  \<open>output_path\<close> for the stages that persist artifacts. This definition follows the
  specification's words; \<open>get_agent_input\<close> above follows the code.
\<close>

definition declared_dependencies :: "string \<Rightarrow> string list" where
  "declared_dependencies agent_id =
     (if agent_id = ''semantic_parser_2'' then [''scraper_1'']
      else if agent_id = ''style_transfer_3'' then [''scraper_1'', ''semantic_parser_2'']
      else if agent_id = ''layout_generator_4'' then [''semantic_parser_2'', ''style_transfer_3'']
      else if agent_id = ''component_synthesizer_5''
        then [''scraper_1'', ''semantic_parser_2'', ''style_transfer_3'', ''layout_generator_4'']
      else if agent_id = ''validation_6'' then [''component_synthesizer_5'']
      else [])"

definition persists_artifacts :: "string \<Rightarrow> bool" where
  "persists_artifacts agent_id \<longleftrightarrow>
     agent_id = ''component_synthesizer_5'' \<or> agent_id = ''validation_6''"

definition artifact_of :: "workflow_state \<Rightarrow> string \<Rightarrow> (string \<rightharpoonup> pyval)" where
  "artifact_of state dep =
     (case map_of (results state) dep of None \<Rightarrow> Map.empty | Some r \<Rightarrow> map_of r)"

definition spec_agent_input :: "string \<Rightarrow> workflow_state \<Rightarrow> (string \<rightharpoonup> pyval)" where
  "spec_agent_input agent_id state =
     (let base = [''url'' \<mapsto> PyStr (url state)];
          with_artifacts =
            fold (\<lambda>dep m. m ++ artifact_of state dep) (declared_dependencies agent_id) base
      in if persists_artifacts agent_id
         then with_artifacts(''output_path'' \<mapsto> output_path state)
         else with_artifacts)"

section \<open>The generation service (service.py)\<close>

text \<open>\<open>GenerationResponse\<close> (workflow/models.py), as stored by \<open>result.dict()\<close>.\<close>

record generation_response =
  r_status :: string
  r_quality_score :: pyval
  r_message :: string
  r_html :: "string option"
  r_css :: "string option"
  r_output_path :: "string option"
  r_html_path :: "string option"
  r_css_path :: "string option"
  r_error :: "string option"
  r_validation_report :: "pydict option"

text \<open>
  An entry of \<open>active_tasks\<close>. The key \<open>result\<close> is there from the start with the value
  \<open>None\<close>; the key \<open>error\<close> is added by the exception branch only.
\<close>

record task =
  t_url :: string
  t_status :: string
  t_created_at :: real
  t_result :: "generation_response option"
  t_error :: "string option"

text \<open>
  \<open>clone_website\<close>: \<open>task_id\<close> is the fresh uuid and \<open>now\<close> the clock reading. The
  background run is \<open>run_generation_task\<close> below.
\<close>

definition clone_website ::
  "string \<Rightarrow> real \<Rightarrow> string \<Rightarrow> (string \<times> task) list \<Rightarrow> (string \<times> task) list" where
  "clone_website task_id now u active_tasks =
     AList.update task_id
       \<lparr> t_url = u, t_status = ''pending'', t_created_at = now, t_result = None,
         t_error = None \<rparr>
       active_tasks"

definition set_task ::
  "string \<Rightarrow> (task \<Rightarrow> task) \<Rightarrow> (string \<times> task) list \<Rightarrow> (string \<times> task) list" where
  "set_task task_id f active_tasks =
     (case map_of active_tasks task_id of
        None \<Rightarrow> active_tasks
      | Some t \<Rightarrow> AList.update task_id (f t) active_tasks)"

text \<open>
  \<open>_run_generation_task\<close> in its two steps, for a task that \<open>clone_website\<close> has stored:
  the task is marked running before \<open>generate_website_from_url\<close> is awaited, and
  \<open>task_finish\<close> records its outcome \<open>gen\<close>: \<open>Inr result\<close> when it returns a
  response, \<open>Inl e\<close> when an exception with text \<open>e\<close> leaves it. The notifications to
  subscribers do not touch \<open>active_tasks\<close>.
\<close>

definition task_start :: "string \<Rightarrow> (string \<times> task) list \<Rightarrow> (string \<times> task) list" where
  "task_start task_id active_tasks =
     set_task task_id (\<lambda>t. t\<lparr>t_status := ''running''\<rparr>) active_tasks"

definition task_finish ::
  "string \<Rightarrow> string + generation_response \<Rightarrow> (string \<times> task) list \<Rightarrow> (string \<times> task) list"
where
  "task_finish task_id gen active_tasks =
     (case gen of
        Inr result \<Rightarrow>
          set_task task_id
            (\<lambda>t. t\<lparr> t_status := (if r_status result = ''success'' then ''completed''
                                   else ''failed''),
                     t_result := Some result \<rparr>)
            active_tasks
      | Inl e \<Rightarrow>
          set_task task_id (\<lambda>t. t\<lparr>t_status := ''failed'', t_error := Some e\<rparr>) active_tasks)"

definition run_generation_task ::
  "string \<Rightarrow> string + generation_response \<Rightarrow> (string \<times> task) list \<Rightarrow> (string \<times> task) list"
where
  "run_generation_task task_id gen active_tasks =
     task_finish task_id gen (task_start task_id active_tasks)"

text \<open>\<open>get_task_result\<close>. A stored \<open>result.dict()\<close> is never an empty dictionary.\<close>

definition get_task_result ::
  "string \<Rightarrow> (string \<times> task) list \<Rightarrow> generation_response option" where
  "get_task_result task_id active_tasks =
     (case map_of active_tasks task_id of
        None \<Rightarrow> None
      | Some task_data \<Rightarrow>
          if t_status task_data \<noteq> ''completed'' \<or> t_result task_data = None then None
          else t_result task_data)"

section \<open>Concrete inputs\<close>

text \<open>
  An agent configuration of a given type with a given retry budget, and the six-stage
  configuration list of the service with one budget for every stage.
\<close>

definition config_of :: "string \<Rightarrow> int \<Rightarrow> agent_config" where
  "config_of t m =
     \<lparr> cfg_agent_type = t, cfg_name = t, cfg_debug = False, cfg_max_retries = m,
       cfg_timeout = 60, cfg_config = [] \<rparr>"

definition configs_with :: "int \<Rightarrow> agent_config list" where
  "configs_with m =
     map (\<lambda>t. config_of t m)
       [''scraper'', ''semantic_parser'', ''style_transfer'', ''layout_generator'',
        ''component_synthesizer'', ''validation'']"

text \<open>The agents that the factory builds from \<open>configs_with m\<close> (for any \<open>m\<close>).\<close>

definition agent_named :: "string \<Rightarrow> base_agent" where
  "agent_named cls =
     \<lparr> ag_debug = PyBool False, ag_timeout = PyInt 60, ag_max_retries = PyInt 3,
       ag_id = PyStr cls \<rparr>"

definition six_agents :: "(string \<times> base_agent) list" where
  "six_agents =
     [(''scraper_1'', agent_named ''ScraperAgent''),
      (''semantic_parser_2'', agent_named ''SemanticParserAgent''),
      (''style_transfer_3'', agent_named ''StyleTransferAgent''),
      (''layout_generator_4'', agent_named ''LayoutGeneratorAgent''),
      (''component_synthesizer_5'', agent_named ''ComponentSynthesizerAgent''),
      (''validation_6'', agent_named ''ValidationAgent'')]"

text \<open>
  Three environments. In \<open>never_passes\<close> every stage returns and the quality gate
  always reports \<open>passed = False\<close>. In \<open>passes_at_once\<close> the gate reports
  \<open>passed = True\<close> with score 95. In \<open>retry_raises\<close> the gate rejects the first
  synthesis and the second execution of the synthesis stage (handler call 6) raises.
\<close>

definition never_passes :: env where
  "never_passes =
     \<lparr> process_sync = (\<lambda>k agent_id input_data.
          if agent_id = ''validation_6''
          then Inr [(''quality_score'', PyFloat 40), (''passed'', PyBool False)]
          else Inr [(agent_id, PyStr ''artifact'')]),
       time = (\<lambda>k j. 0), time_orch = 0 \<rparr>"

definition passes_at_once :: env where
  "passes_at_once =
     \<lparr> process_sync = (\<lambda>k agent_id input_data.
          if agent_id = ''validation_6''
          then Inr [(''quality_score'', PyFloat 95), (''passed'', PyBool True)]
          else Inr [(agent_id, PyStr ''artifact'')]),
       time = (\<lambda>k j. 0), time_orch = 0 \<rparr>"


text \<open>Two responses, and a state whose gate entry records a failure.\<close>

definition error_response :: generation_response where
  "error_response =
     \<lparr> r_status = ''error'', r_quality_score = PyFloat 0,
       r_message = ''Website generation failed'', r_html = None, r_css = None,
       r_output_path = None, r_html_path = None, r_css_path = None,
       r_error = Some ''Website generation failed'', r_validation_report = None \<rparr>"

definition success_response :: generation_response where
  "success_response =
     \<lparr> r_status = ''success'', r_quality_score = PyFloat 95,
       r_message = ''Website generation completed successfully'', r_html = Some ''<html/>'',
       r_css = Some ''body {}'', r_output_path = Some ''out'',
       r_html_path = Some ''out/index.html'', r_css_path = Some ''out/styles.css'',
       r_error = None, r_validation_report = Some [] \<rparr>"

definition failed_gate_entry :: agent_state where
  "failed_gate_entry =
     \<lparr> a_agent_id = Some ''validation_6'', a_name = Some (PyStr ''ValidationAgent''),
       a_status = Some ''failed'', a_start_time = Some 0, a_end_time = Some 1,
       a_result = None, a_error = Some ''boom'', a_retry_count = Some 0 \<rparr>"

definition failed_gate_state :: workflow_state where
  "failed_gate_state =
     (initial_state ''http://example.com'' ''out'')
       \<lparr>agents := [(''validation_6'', failed_gate_entry)]\<rparr>"

text \<open>
  Two states with the same url, output path and synthesis artifact, which differ in the
  scraper's artifact and in an artifact stored under a key that is no stage id.
\<close>

definition results_state :: workflow_state where
  "results_state =
     (initial_state ''http://example.com'' ''out'')
       \<lparr>results := [(''scraper_1'', [(''html'', PyStr ''<p/>'')]),
                    (''component_synthesizer_5'', [(''html_output'', PyStr ''<html/>'')])]\<rparr>"

definition other_results_state :: workflow_state where
  "other_results_state =
     (initial_state ''http://example.com'' ''out'')
       \<lparr>results := [(''scraper_1'', [(''html'', PyStr ''<div/>'')]),
                    (''component_synthesizer_5'', [(''html_output'', PyStr ''<html/>'')]),
                    (''extra'', [(''secret'', PyInt 1)])]\<rparr>"








definition stage_retry_count :: "string \<Rightarrow> workflow_state \<Rightarrow> int option" where
  "stage_retry_count agent_id st = map_option get_retry_count (map_of (agents st) agent_id)"


text \<open>The number of times a stage's handler was called in a list of handler calls.\<close>

definition executions :: "string \<Rightarrow> string list \<Rightarrow> nat" where
  "executions agent_id calls = count_list calls agent_id"

section \<open>Properties\<close>

subsection \<open>The validation router on a missing or failed gate entry\<close>

text \<open>
  C3, as the claim states it, at the state a run starts from: the quality gate has no
  recorded run state there, and the router does not answer "retry" but marks the run
  failed and routes to the sink.
\<close>

theorem router_no_entry_counterexample:
  "validation_router (initial_state ''http://example.com'' ''out'')
     = Inr (''success'', (initial_state ''http://example.com'' ''out'')\<lparr>status := ''failed''\<rparr>)"
  by (simp add: validation_router_def initial_state_def)

text \<open>
  C3, amended: when the gate's recorded run state has status "failed" and a
  \<open>retry_count\<close> below 3, the router returns "retry" and leaves the state as it is; when
  the gate has no recorded run state, the router sets the run's status to "failed" and
  returns "success".
\<close>

theorem router_failed_gate_retry:
  "(map_of (agents st) ''validation_6'' = Some v \<and> a_status v = Some ''failed''
      \<and> get_retry_count v < 3
      \<longrightarrow> validation_router st = Inr (''retry'', st))
   \<and> (map_of (agents st) ''validation_6'' = None
      \<longrightarrow> validation_router st = Inr (''success'', st\<lparr>status := ''failed''\<rparr>))"
  by (auto simp add: validation_router_def agent_state_empty_def)

theorem router_failed_gate_retry_witness:
  "validation_router failed_gate_state = Inr (''retry'', failed_gate_state)
   \<and> validation_router (initial_state ''u'' ''out'')
       = Inr (''success'', (initial_state ''u'' ''out'')\<lparr>status := ''failed''\<rparr>)"
  using router_failed_gate_retry [of failed_gate_state failed_gate_entry]
        router_failed_gate_retry [of "initial_state ''u'' ''out''"]
  by (simp add: failed_gate_state_def failed_gate_entry_def initial_state_def
        get_retry_count_def)

subsection \<open>Task results\<close>

lemma map_of_set_task:
  "map_of (set_task tid f ts) x
     = (if x = tid then map_option f (map_of ts tid) else map_of ts x)"
  by (auto simp add: set_task_def update_conv' split: option.splits)

text \<open>
  C7, as the claim states it, at a task whose generation ended with an error response: the
  task is in the terminal state "failed" and its result is stored, yet
  \<open>get_task_result\<close> returns \<open>None\<close>.
\<close>

theorem get_task_result_failed_counterexample:
  "map_of (run_generation_task ''t1'' (Inr error_response)
             (clone_website ''t1'' 0 ''http://example.com'' [])) ''t1''
     = Some \<lparr> t_url = ''http://example.com'', t_status = ''failed'', t_created_at = 0,
              t_result = Some error_response, t_error = None \<rparr>
   \<and> get_task_result ''t1''
        (run_generation_task ''t1'' (Inr error_response)
           (clone_website ''t1'' 0 ''http://example.com'' []))
      = None"
  by (simp add: get_task_result_def run_generation_task_def task_finish_def task_start_def
        map_of_set_task clone_website_def error_response_def)

text \<open>
  C7, amended: \<open>get_task_result\<close> returns \<open>None\<close> for an unknown task id, for a
  pending task and for a running task; after the background run it returns the stored
  response exactly when the generation returned a response with status "success" (task
  status "completed"), and \<open>None\<close> when the task ended "failed", whether a result was
  stored or not.
\<close>

theorem get_task_result_lifecycle:
  "(map_of ts tid = None \<longrightarrow> get_task_result tid ts = None)
   \<and> get_task_result tid (clone_website tid now u ts) = None
   \<and> get_task_result tid (task_start tid (clone_website tid now u ts)) = None
   \<and> get_task_result tid (run_generation_task tid gen (clone_website tid now u ts))
       = (case gen of Inl e \<Rightarrow> None
          | Inr result \<Rightarrow> if r_status result = ''success'' then Some result else None)"
  by (simp add: get_task_result_def run_generation_task_def task_finish_def task_start_def
        map_of_set_task clone_website_def update_conv' split: sum.splits)

theorem get_task_result_lifecycle_witness:
  "get_task_result ''t2'' (clone_website ''t1'' 0 ''u'' []) = None
   \<and> get_task_result ''t1''
        (run_generation_task ''t1'' (Inr success_response) (clone_website ''t1'' 0 ''u'' []))
       = Some success_response
   \<and> get_task_result ''t1''
        (run_generation_task ''t1'' (Inr error_response) (clone_website ''t1'' 0 ''u'' []))
       = None"
  using get_task_result_lifecycle
          [of "clone_website ''t1'' 0 ''u'' []" "''t2''" 0 "''u''" "Inr success_response"]
        get_task_result_lifecycle [of "[]" "''t1''" 0 "''u''" "Inr success_response"]
        get_task_result_lifecycle [of "[]" "''t1''" 0 "''u''" "Inr error_response"]
  by (simp add: clone_website_def success_response_def error_response_def)

subsection \<open>Stage inputs\<close>

lemma map_of_add_result:
  "map_of (add_result d st inp) = map_of inp ++ artifact_of st d"
  by (simp add: add_result_def artifact_of_def dict_update_def merge_conv'
        split: option.splits)

lemma artifact_of_absent: "map_of (results st) d = None \<Longrightarrow> artifact_of st d = Map.empty"
  by (simp add: artifact_of_def)

lemma get_agent_input_refines:
  "map_of (get_agent_input agent_id st) = spec_agent_input agent_id st"
  unfolding get_agent_input_def spec_agent_input_def declared_dependencies_def
    persists_artifacts_def Let_def
  by (auto simp add: map_of_add_result update_conv' artifact_of_absent)

lemma get_agent_input_frame:
  "url st = url st' \<Longrightarrow> output_path st = output_path st' \<Longrightarrow>
   (\<forall>d \<in> set (declared_dependencies agent_id).
      map_of (results st) d = map_of (results st') d) \<Longrightarrow>
   get_agent_input agent_id st = get_agent_input agent_id st'"
  unfolding get_agent_input_def declared_dependencies_def Let_def
  by (auto simp add: add_result_def split: if_splits)

text \<open>
  C8: as a dictionary, the input that \<open>_get_agent_input\<close> computes for a stage is the one
  the dependency table prescribes: the url, overridden in order by the artifacts of the
  declared upstream stages, plus \<open>output_path\<close> for the synthesizer and the quality gate
  only. No other entry of \<open>results\<close> matters: two states with the same url, the same
  output path and the same artifacts for the declared dependencies give the same input.
\<close>

theorem get_agent_input_declared:
  "map_of (get_agent_input agent_id st) = spec_agent_input agent_id st
   \<and> (url st = url st' \<and> output_path st = output_path st'
        \<and> (\<forall>d \<in> set (declared_dependencies agent_id).
              map_of (results st) d = map_of (results st') d)
      \<longrightarrow> get_agent_input agent_id st = get_agent_input agent_id st')"
  using get_agent_input_refines get_agent_input_frame by blast

theorem get_agent_input_declared_witness:
  "get_agent_input ''validation_6'' results_state
     = [(''url'', PyStr ''http://example.com''), (''html_output'', PyStr ''<html/>''),
        (''output_path'', PyStr ''out'')]
   \<and> get_agent_input ''validation_6'' results_state
       = get_agent_input ''validation_6'' other_results_state
   \<and> spec_agent_input ''validation_6'' results_state ''html'' = None"
  using get_agent_input_declared
          [of "''validation_6''" results_state other_results_state]
  by (simp add: results_state_def other_results_state_def initial_state_def
        declared_dependencies_def get_agent_input_def add_result_def dict_update_def
        AList.merge_def spec_agent_input_def persists_artifacts_def artifact_of_def)

subsection \<open>Quality score\<close>

text \<open>
  C9: a run starts with \<open>quality_score\<close> 0. When the handler of the quality gate
  returns, the gate's result is stored in \<open>results\<close>, \<open>quality_score\<close> is the score
  that result reports (1.0 if it reports none), and if the result reports a true
  \<open>passed\<close> the run's status is "completed".
\<close>

theorem gate_sets_quality_score:
  "quality_score (initial_state u out) = PyFloat 0
   \<and> (handler W k ''validation_6'' agent st = Returns st' \<longrightarrow>
        (\<exists>result. map_of (results st') ''validation_6'' = Some result
           \<and> quality_score st' = dict_get result ''quality_score'' (PyFloat 1)
           \<and> (\<forall>q. map_of result ''quality_score'' = Some q \<longrightarrow> quality_score st' = q)
           \<and> (truthy (dict_get result ''passed'' (PyBool False))
                \<longrightarrow> status st' = ''completed'')))"
  by (auto simp add: initial_state_def handler_def Let_def update_conv' dict_get_def
        split: sum.splits)

theorem gate_sets_quality_score_witness:
  "(case handler passes_at_once 5 ''validation_6'' (agent_named ''ValidationAgent'')
           (initial_state ''http://example.com'' ''out'') of
      Returns s \<Rightarrow> quality_score s = PyFloat 95 \<and> status s = ''completed''
    | Raises s e \<Rightarrow> False)"
proof -
  obtain s where h:
    "handler passes_at_once 5 ''validation_6'' (agent_named ''ValidationAgent'')
       (initial_state ''http://example.com'' ''out'') = Returns s"
    by (simp add: handler_def passes_at_once_def Let_def)
  have r: "map_of (results s) ''validation_6''
             = Some [(''quality_score'', PyFloat 95), (''passed'', PyBool True)]"
    using h by (auto simp add: handler_def passes_at_once_def Let_def initial_state_def)
  from gate_sets_quality_score
         [of "''http://example.com''" "''out''" passes_at_once 5
             "agent_named ''ValidationAgent''"
             "initial_state ''http://example.com'' ''out''" s] h r
  show ?thesis by (simp add: dict_get_def)
qed

subsection \<open>The retry cutoff\<close>








lemma create_agents_from_config_six:
  "create_agents_from_config (configs_with m) = Inr six_agents"
  by (simp add: create_agents_from_config_def configs_with_def config_of_def create_agent_def
        agent_classes_def BaseAgent_init_def dict_get_def six_agents_def agent_named_def
        str_nat.simps)


subsection \<open>Handler, router and traversal steps\<close>

declare traverse.simps [simp del]









subsection \<open>Results and run states\<close>



text \<open>The handler goes on from \<open>enter_stage\<close>: it calls the stage on the input read there.\<close>

lemma handler_from_enter_stage:
  "(\<forall>st'. handler W k n ag st = Returns st' \<longrightarrow>
         (\<exists>result. process_sync W k n (get_agent_input n (enter_stage W k n ag st)) = Inr result
            \<and> map_of (results st') n = Some result))
   \<and> (\<forall>st' e. handler W k n ag st = Raises st' e \<longrightarrow>
         process_sync W k n (get_agent_input n (enter_stage W k n ag st)) = Inl e
         \<and> results st' = results (enter_stage W k n ag st))"
  by (auto simp add: handler_def enter_stage_def Let_def update_conv' split: sum.splits)











subsection \<open>Termination of the pipeline\<close>









subsection \<open>The status a run ends with\<close>









subsection \<open>Configured retry budgets\<close>

text \<open>
  C2, evaluated on the six-stage pipeline built from configurations that all carry
  \<open>max_retries = 1\<close>, with a quality gate that always reports \<open>passed = False\<close>
  and stages that never raise: the factory builds the agents, the handler of the synthesis
  stage is called four times (not two), and the run ends with status "failed".
\<close>

theorem synthesis_runs_four_times:
  "create_agents_from_config (configs_with 1) = Inr six_agents
   \<and> cfg_max_retries (config_of ''component_synthesizer'' 1) = 1
   \<and> map_option (executions ''component_synthesizer_5'' \<circ> fst)
       (run_workflow_traced never_passes six_agents ''out'' 13 ''http://example.com'') = Some 4
   \<and> map_option (status \<circ> snd)
       (run_workflow_traced never_passes six_agents ''out'' 13 ''http://example.com'')
     = Some ''failed''"
  by code_simp

text \<open>
  C4, evaluated on the same run: the synthesis stage is configured with
  \<open>max_retries = 1\<close>, so the claimed bound on its \<open>retry_count\<close> is 2, and the
  returned state records a \<open>retry_count\<close> of 3.
\<close>

theorem retry_count_exceeds_budget:
  "create_agents_from_config (configs_with 1) = Inr six_agents
   \<and> cfg_max_retries (config_of ''component_synthesizer'' 1) + 1 = 2
   \<and> map_option (stage_retry_count ''component_synthesizer_5'')
       (run_workflow never_passes six_agents ''out'' 13 ''http://example.com'')
     = Some (Some 3)"
  by code_simp

end
